theory Spec2Isabelle
  imports Main
begin

section \<open>Data model\<close>

text \<open>
  The program is one Go file, \<^verbatim>\<open>main.go\<close>. The part verified here is the function
  \<^verbatim>\<open>truncate\<close> and the function \<^verbatim>\<open>Search\<close>, which asks three remote services
  (Rotten Tomatoes, Goodreads, Spotify) for a query in three goroutines and returns the
  three answers once a \<^verbatim>\<open>sync.WaitGroup\<close> says that all of them are done.

  A Go \<^verbatim>\<open>string\<close> is a sequence of bytes, and so is \<^typ>\<open>string\<close>: \<^verbatim>\<open>len(s)\<close> is
  \<^term>\<open>length s\<close> and \<^verbatim>\<open>s[:l]\<close> keeps the first \<^verbatim>\<open>l\<close> bytes.

  The item types \<^verbatim>\<open>rt.Movie\<close>, \<^verbatim>\<open>gr.GoodreadsResponse\<close> and
  \<^verbatim>\<open>sp.SearchAlbumsResponse\<close> are declared in three libraries. \<^verbatim>\<open>Search\<close> touches
  the fields \<^verbatim>\<open>Title\<close>, \<^verbatim>\<open>Search.Works\<close>, \<^verbatim>\<open>BestBook.Title\<close>, \<^verbatim>\<open>Albums\<close> and
  \<^verbatim>\<open>Name\<close> only. Each struct is a record with the fields that are used; all the other
  fields of the struct are the extension part of the record (its \<open>more\<close> field), of a
  type that is a parameter. The structs are held by value: each loop changes a copy of
  an element and puts the copy into the result (\<^verbatim>\<open>m = append(m, mov)\<close>,
  \<^verbatim>\<open>books.Search.Works[i] = w\<close>, \<^verbatim>\<open>albums.Albums[i] = a\<close>).
\<close>

record Movie =
  Title :: string

record BestBook =
  Title :: string

record 'b Work =
  BestBook :: "'b BestBook_scheme"

record ('b, 'w) SearchResults =
  Works :: "('b, 'w) Work_scheme list"

record ('b, 'w, 'r) GoodreadsResponse =
  Search :: "('b, 'w, 'r) SearchResults_scheme"

record Album =
  Name :: string

record 'a SearchAlbumsResponse =
  Albums :: "'a Album_scheme list"

text \<open>
  A value of Go's \<^verbatim>\<open>error\<close> interface is \<^verbatim>\<open>nil\<close> (\<^term>\<open>None\<close>) or carries the
  message that \<^verbatim>\<open>err.Error()\<close> returns.
\<close>

type_synonym error = "string option"

text \<open>
  What one goroutine does besides writing its result: the lines it prints, and the
  arguments of its calls of \<^verbatim>\<open>truncate\<close>, in the order of the calls. The second field
  is a history of the run; the program does not keep it.
\<close>

record trace =
  printed :: "string list"
  truncated :: "string list"

text \<open>
  The ways in which a run does not return: a run-time panic of a slice expression or of
  an index expression, a panic of the wait group, and a \<^verbatim>\<open>Wait\<close> whose counter never
  reaches zero.
\<close>

datatype abort =
    SliceBoundsOutOfRange
  | IndexOutOfRange
  | NegativeWaitGroupCounter
  | WaitNeverReturns

subsection \<open>Configurations of an interleaved run\<close>

text \<open>
  For the runs in which the steps of the three goroutines are interleaved: the three
  goroutines, the point that each one has reached together with the values of its local
  variables (the payload and the error after the call of the client, the rest of the
  slice in the first loop, the index, the length and the local response in the other
  two loops), and the variables that are shared: the results \<^verbatim>\<open>m\<close>, \<^verbatim>\<open>g\<close>, \<^verbatim>\<open>s\<close> of
  \<^verbatim>\<open>Search\<close>, the counter of the wait group, and the terminal.
\<close>

datatype tid = T_rt | T_gr | T_sp

datatype 'mv rt_pc =
    RtCall
  | RtPrint "'mv list" error
  | RtRange "'mv list"
  | RtDone
  | RtExit

datatype 'bk gr_pc =
    GrCall
  | GrPrint 'bk error
  | GrRange nat nat 'bk
  | GrAssign 'bk
  | GrDone
  | GrExit

datatype 'al sp_pc =
    SpCall
  | SpPrint 'al error
  | SpRange nat nat 'al
  | SpAssign 'al
  | SpDone
  | SpExit

record ('mv, 'bk, 'al) config =
  pc_rt :: "'mv rt_pc"
  pc_gr :: "'bk gr_pc"
  pc_sp :: "'al sp_pc"
  var_m :: "'mv list"
  var_g :: 'bk
  var_s :: 'al
  var_wg :: int
  stdout :: "string list"

section \<open>The function \<^verbatim>\<open>truncate\<close>\<close>

text \<open>
  The slice expression \<^verbatim>\<open>s[:l]\<close> panics unless \<^verbatim>\<open>0 <= l <= len(s)\<close>. Go's \<^verbatim>\<open>int\<close>
  is modelled by \<^typ>\<open>int\<close>: \<^verbatim>\<open>truncate\<close> compares \<^verbatim>\<open>l\<close> and slices with it, and does
  no arithmetic on it.
\<close>

definition slice_to :: "string \<Rightarrow> int \<Rightarrow> abort + string" where
  "slice_to s l =
     (if 0 \<le> l \<and> l \<le> int (length s) then Inr (take (nat l) s)
      else Inl SliceBoundsOutOfRange)"

text \<open>
  \<^verbatim>\<open>
  func truncate(s, suf string, l int) string {
      if len(s) < l {
          return s
      }
      return s[:l] + suf
  }
  \<close>
\<close>

definition truncate :: "string \<Rightarrow> string \<Rightarrow> int \<Rightarrow> abort + string" where
  "truncate s suf l =
     (if int (length s) < l then Inr s
      else (case slice_to s l of
              Inl e \<Rightarrow> Inl e
            | Inr p \<Rightarrow> Inr (p @ suf)))"

subsection \<open>The specification's rule, counted in characters\<close>

text \<open>
  The specification counts the bound in characters. In UTF-8 a character is one byte
  that is not a continuation byte (\<^verbatim>\<open>10xxxxxx\<close>), followed by its continuation bytes.
  \<open>truncate_chars_spec\<close> follows the words of the specification: the title unchanged
  if its number of characters is below the bound, otherwise its first \<open>l\<close> characters and
  the suffix. It is not taken from the code; it is what the code is compared with.
\<close>

definition is_continuation :: "char \<Rightarrow> bool" where
  "is_continuation c = (128 \<le> (of_char c :: nat) \<and> (of_char c :: nat) < 192)"

definition rune_count :: "string \<Rightarrow> nat" where
  "rune_count s = length (filter (\<lambda>c. \<not> is_continuation c) s)"

fun take_runes :: "nat \<Rightarrow> string \<Rightarrow> string" where
  "take_runes n [] = []"
| "take_runes n (c # cs) =
     (if is_continuation c then c # take_runes n cs
      else (case n of 0 \<Rightarrow> [] | Suc k \<Rightarrow> c # take_runes k cs))"

definition truncate_chars_spec :: "string \<Rightarrow> string \<Rightarrow> int \<Rightarrow> string" where
  "truncate_chars_spec s suf l =
     (if int (rune_count s) < l then s else take_runes (nat l) s @ suf)"

section \<open>The function \<^verbatim>\<open>Search\<close>\<close>

subsection \<open>Indexing, printing, the wait group\<close>

text \<open>
  An index expression \<^verbatim>\<open>xs[i]\<close> panics when \<^verbatim>\<open>i\<close> is out of range, both when it is
  read and when it is assigned to.
\<close>

definition index_at :: "'a list \<Rightarrow> nat \<Rightarrow> abort + 'a" where
  "index_at xs i = (if i < length xs then Inr (xs ! i) else Inl IndexOutOfRange)"

definition store_at :: "'a list \<Rightarrow> nat \<Rightarrow> 'a \<Rightarrow> abort + 'a list" where
  "store_at xs i x = (if i < length xs then Inr (xs[i := x]) else Inl IndexOutOfRange)"

text \<open>
  \<^verbatim>\<open>fmt.Println(a, b)\<close> writes its operands with a space between them and a newline.
  \<open>report\<close> is the statement
  \<^verbatim>\<open>if err != nil { fmt.Println("ERROR (rt): ", err.Error()) }\<close>: the lines it prints.
\<close>

definition Println :: "string \<Rightarrow> string \<Rightarrow> string" where
  "Println a b = a @ '' '' @ b @ [CHR 0x0A]"

definition report :: "string \<Rightarrow> error \<Rightarrow> string list" where
  "report tag err = (case err of None \<Rightarrow> [] | Some msg \<Rightarrow> [Println tag msg])"

text \<open>
  The counter of a \<^verbatim>\<open>sync.WaitGroup\<close>. \<^verbatim>\<open>Add\<close> panics when the counter becomes
  negative, \<^verbatim>\<open>Done\<close> is \<^verbatim>\<open>Add(-1)\<close>, and \<^verbatim>\<open>Wait\<close> returns when the counter is zero.
  \<open>wg_Wait\<close> is applied to the counter that is left when every goroutine has run its
  deferred \<^verbatim>\<open>Done\<close>: if that counter is not zero, \<^verbatim>\<open>Wait\<close> blocks for ever.
\<close>

definition wg_Add :: "int \<Rightarrow> int \<Rightarrow> abort + int" where
  "wg_Add wg delta =
     (if wg + delta < 0 then Inl NegativeWaitGroupCounter else Inr (wg + delta))"

definition wg_Done :: "int \<Rightarrow> abort + int" where
  "wg_Done wg = wg_Add wg (- 1)"

definition wg_Wait :: "int \<Rightarrow> abort + unit" where
  "wg_Wait wg = (if wg = 0 then Inr () else Inl WaitNeverReturns)"

subsection \<open>The three loops\<close>

text \<open>
  \<^verbatim>\<open>
  for _, mov := range movies {
      mov.Title = truncate(mov.Title, "...", 60)
      m = append(m, mov)
  }
  \<close>
  The loop variable is a copy of the element; the copy is changed and appended to
  \<^verbatim>\<open>m\<close>. The state of the loop is \<^verbatim>\<open>m\<close> and the history of the calls of
  \<^verbatim>\<open>truncate\<close>.
\<close>

fun range_movies ::
  "'a Movie_scheme list \<Rightarrow> 'a Movie_scheme list \<times> string list
     \<Rightarrow> abort + 'a Movie_scheme list \<times> string list" where
  "range_movies [] (m, calls) = Inr (m, calls)"
| "range_movies (mov # movies) (m, calls) =
     (case truncate (Movie.Title mov) ''...'' 60 of
        Inl e \<Rightarrow> Inl e
      | Inr t \<Rightarrow>
          range_movies movies (m @ [mov\<lparr>Movie.Title := t\<rparr>], calls @ [Movie.Title mov]))"

text \<open>
  \<^verbatim>\<open>
  for i, w := range books.Search.Works {
      w.BestBook.Title = truncate(w.BestBook.Title, "...", 60)
      books.Search.Works[i] = w
  }
  \<close>
  The length \<open>n\<close> of the slice is read once, before the first iteration; iteration \<open>i\<close>
  copies element \<open>i\<close>, changes the copy and stores it at index \<open>i\<close>.
\<close>

function range_works ::
  "nat \<Rightarrow> nat \<Rightarrow> ('b, 'w) Work_scheme list \<times> string list
     \<Rightarrow> abort + ('b, 'w) Work_scheme list \<times> string list" where
  "range_works i n (works, calls) =
     (if i < n then
        (case index_at works i of
           Inl e \<Rightarrow> Inl e
         | Inr w \<Rightarrow>
             (case truncate (BestBook.Title (BestBook w)) ''...'' 60 of
                Inl e \<Rightarrow> Inl e
              | Inr t \<Rightarrow>
                  (case store_at works i
                          (w\<lparr>BestBook := (BestBook w)\<lparr>BestBook.Title := t\<rparr>\<rparr>) of
                     Inl e \<Rightarrow> Inl e
                   | Inr works' \<Rightarrow>
                       range_works (i + 1) n
                         (works', calls @ [BestBook.Title (BestBook w)]))))
      else Inr (works, calls))"
  by pat_completeness auto
termination
  by (relation "measure (\<lambda>(i, n, _). n - i)") auto

text \<open>
  \<^verbatim>\<open>
  for i, a := range albums.Albums {
      a.Name = truncate(a.Name, "...", 60)
      albums.Albums[i] = a
  }
  \<close>
\<close>

function range_albums ::
  "nat \<Rightarrow> nat \<Rightarrow> 'a Album_scheme list \<times> string list
     \<Rightarrow> abort + 'a Album_scheme list \<times> string list" where
  "range_albums i n (albums, calls) =
     (if i < n then
        (case index_at albums i of
           Inl e \<Rightarrow> Inl e
         | Inr a \<Rightarrow>
             (case truncate (Name a) ''...'' 60 of
                Inl e \<Rightarrow> Inl e
              | Inr t \<Rightarrow>
                  (case store_at albums i (a\<lparr>Name := t\<rparr>) of
                     Inl e \<Rightarrow> Inl e
                   | Inr albums' \<Rightarrow>
                       range_albums (i + 1) n (albums', calls @ [Name a]))))
      else Inr (albums, calls))"
  by pat_completeness auto
termination
  by (relation "measure (\<lambda>(i, n, _). n - i)") auto

declare range_works.simps [simp del]
declare range_albums.simps [simp del]

subsection \<open>The three goroutines\<close>

text \<open>
  A client is given by its search method, a function from the query to the pair that
  the method returns: the payload and the error. Go lets a method return any payload
  together with an error that is not \<^verbatim>\<open>nil\<close>, so both components are arbitrary.

  \<^verbatim>\<open>
  go func(q string) {
      defer wg.Done()
      movies, err := rtClient.SearchMovies(q)
      if err != nil {
          fmt.Println("ERROR (rt): ", err.Error())
      }
      for _, mov := range movies { ... }
  }(q)
  \<close>
  After the error is printed the goroutine goes on with the payload. The result is the
  value of \<^verbatim>\<open>m\<close> at the end (it is \<^verbatim>\<open>nil\<close>, the empty list, at the start) and the
  trace of the goroutine.
\<close>

definition go_rt ::
  "string \<Rightarrow> (string \<Rightarrow> 'a Movie_scheme list \<times> error)
     \<Rightarrow> abort + 'a Movie_scheme list \<times> trace" where
  "go_rt q SearchMovies =
     (case SearchMovies q of
        (movies, err) \<Rightarrow>
          (case range_movies movies ([], []) of
             Inl e \<Rightarrow> Inl e
           | Inr (m, calls) \<Rightarrow>
               Inr (m, \<lparr>printed = report ''ERROR (rt): '' err, truncated = calls\<rparr>)))"

text \<open>
  \<^verbatim>\<open>
  go func(q string) {
      defer wg.Done()
      books, err := grClient.SearchBooks(q)
      if err != nil {
          fmt.Println("ERROR (gr): ", err.Error())
      }
      for i, w := range books.Search.Works { ... }
      g = books
  }(q)
  \<close>
\<close>

definition go_gr ::
  "string \<Rightarrow> (string \<Rightarrow> ('b, 'w, 'r, 'g) GoodreadsResponse_scheme \<times> error)
     \<Rightarrow> abort + ('b, 'w, 'r, 'g) GoodreadsResponse_scheme \<times> trace" where
  "go_gr q SearchBooks =
     (case SearchBooks q of
        (books, err) \<Rightarrow>
          (case range_works 0 (length (Works (GoodreadsResponse.Search books)))
                  (Works (GoodreadsResponse.Search books), []) of
             Inl e \<Rightarrow> Inl e
           | Inr (works, calls) \<Rightarrow>
               Inr (books\<lparr>GoodreadsResponse.Search :=
                            (GoodreadsResponse.Search books)\<lparr>Works := works\<rparr>\<rparr>,
                    \<lparr>printed = report ''ERROR (gr): '' err, truncated = calls\<rparr>)))"

text \<open>
  \<^verbatim>\<open>
  go func(q string) {
      defer wg.Done()
      albums, err := spClient.SearchAlbums(q)
      if err != nil {
          fmt.Println("ERROR (sp): ", err.Error())
      }
      for i, a := range albums.Albums { ... }
      s = albums
  }(q)
  \<close>
\<close>

definition go_sp ::
  "string \<Rightarrow> (string \<Rightarrow> ('c, 's) SearchAlbumsResponse_scheme \<times> error)
     \<Rightarrow> abort + ('c, 's) SearchAlbumsResponse_scheme \<times> trace" where
  "go_sp q SearchAlbums =
     (case SearchAlbums q of
        (albums, err) \<Rightarrow>
          (case range_albums 0 (length (Albums albums)) (Albums albums, []) of
             Inl e \<Rightarrow> Inl e
           | Inr (as, calls) \<Rightarrow>
               Inr (albums\<lparr>Albums := as\<rparr>,
                    \<lparr>printed = report ''ERROR (sp): '' err, truncated = calls\<rparr>)))"

subsection \<open>Fan-out and join\<close>

text \<open>
  \<^verbatim>\<open>
  func Search(q string, rtClient rt.RottenTomatoes, grClient gr.Goodreads,
              spClient sp.Spotify)
        (m []rt.Movie, g gr.GoodreadsResponse, s sp.SearchAlbumsResponse) {
      var wg sync.WaitGroup
      wg.Add(3)
      go func(q string) { ... }(q)
      go func(q string) { ... }(q)
      go func(q string) { ... }(q)
      wg.Wait()
      return m, g, s
  }
  \<close>
  The goroutines share no variable: the first writes \<^verbatim>\<open>m\<close> only, the second
  \<^verbatim>\<open>g\<close> only, the third \<^verbatim>\<open>s\<close> only, each works on the payload of its own client,
  and \<^verbatim>\<open>Search\<close> reads the three variables after \<^verbatim>\<open>Wait\<close> has returned. So the three
  values returned are those of the three goroutines run one after the other, which is
  how this function runs them; a panic in any goroutine ends the program. That every
  interleaving of the steps of the goroutines gives the same three values is proved
  below, on the runs of the last section of definitions. The value of the
  model is \<open>Inr\<close> of the tuple \<^verbatim>\<open>(m, g, s)\<close> that \<^verbatim>\<open>Search\<close> returns and of the
  traces of the three goroutines (what each one printed: the order of the lines of
  different goroutines on the terminal is not fixed), or \<open>Inl\<close> when \<^verbatim>\<open>Search\<close> does
  not return.
\<close>

definition Search ::
  "string \<Rightarrow> (string \<Rightarrow> 'a Movie_scheme list \<times> error)
     \<Rightarrow> (string \<Rightarrow> ('b, 'w, 'r, 'g) GoodreadsResponse_scheme \<times> error)
     \<Rightarrow> (string \<Rightarrow> ('c, 's) SearchAlbumsResponse_scheme \<times> error)
     \<Rightarrow> abort + ('a Movie_scheme list
                  \<times> ('b, 'w, 'r, 'g) GoodreadsResponse_scheme
                  \<times> ('c, 's) SearchAlbumsResponse_scheme)
                 \<times> (trace \<times> trace \<times> trace)" where
  "Search q SearchMovies SearchBooks SearchAlbums =
     (case wg_Add 0 3 of Inl e \<Rightarrow> Inl e | Inr wg0 \<Rightarrow>
     (case go_rt q SearchMovies of Inl e \<Rightarrow> Inl e | Inr (m, t_rt) \<Rightarrow>
     (case wg_Done wg0 of Inl e \<Rightarrow> Inl e | Inr wg1 \<Rightarrow>
     (case go_gr q SearchBooks of Inl e \<Rightarrow> Inl e | Inr (g, t_gr) \<Rightarrow>
     (case wg_Done wg1 of Inl e \<Rightarrow> Inl e | Inr wg2 \<Rightarrow>
     (case go_sp q SearchAlbums of Inl e \<Rightarrow> Inl e | Inr (s, t_sp) \<Rightarrow>
     (case wg_Done wg2 of Inl e \<Rightarrow> Inl e | Inr wg3 \<Rightarrow>
     (case wg_Wait wg3 of Inl e \<Rightarrow> Inl e | Inr _ \<Rightarrow>
        Inr ((m, g, s), (t_rt, t_gr, t_sp))))))))))"

subsection \<open>What the loops compute, in closed form\<close>

text \<open>
  The result of \<^verbatim>\<open>truncate(t, "...", 60)\<close>, and an item with its title replaced by
  that result. These functions are used to state what the loops compute.
\<close>

definition title60 :: "string \<Rightarrow> string" where
  "title60 t = (if length t < 60 then t else take 60 t @ ''...'')"

definition movie60 :: "'a Movie_scheme \<Rightarrow> 'a Movie_scheme" where
  "movie60 mov = mov\<lparr>Movie.Title := title60 (Movie.Title mov)\<rparr>"

definition work60 :: "('b, 'w) Work_scheme \<Rightarrow> ('b, 'w) Work_scheme" where
  "work60 w =
     w\<lparr>BestBook := (BestBook w)\<lparr>BestBook.Title := title60 (BestBook.Title (BestBook w))\<rparr>\<rparr>"

definition album60 :: "'a Album_scheme \<Rightarrow> 'a Album_scheme" where
  "album60 a = a\<lparr>Name := title60 (Name a)\<rparr>"

definition books60 ::
  "('b, 'w, 'r, 'g) GoodreadsResponse_scheme \<Rightarrow> ('b, 'w, 'r, 'g) GoodreadsResponse_scheme" where
  "books60 books =
     books\<lparr>GoodreadsResponse.Search :=
             (GoodreadsResponse.Search books)\<lparr>Works :=
                map work60 (Works (GoodreadsResponse.Search books))\<rparr>\<rparr>"

definition albums60 ::
  "('c, 's) SearchAlbumsResponse_scheme \<Rightarrow> ('c, 's) SearchAlbumsResponse_scheme" where
  "albums60 albums = albums\<lparr>Albums := map album60 (Albums albums)\<rparr>"

section \<open>Interleaved runs of the three goroutines\<close>

text \<open>
  The configuration after \<^verbatim>\<open>wg.Add(3)\<close> and the three \<^verbatim>\<open>go\<close> statements: no goroutine
  has started, \<^verbatim>\<open>m\<close> is \<^verbatim>\<open>nil\<close>, the counter is 3. The zero values of the two response
  types, which \<^verbatim>\<open>g\<close> and \<^verbatim>\<open>s\<close> hold at the start, are parameters, since the types are
  those of the libraries.
\<close>

definition init :: "'bk \<Rightarrow> 'al \<Rightarrow> ('mv, 'bk, 'al) config" where
  "init g0 s0 =
     \<lparr>pc_rt = RtCall, pc_gr = GrCall, pc_sp = SpCall,
      var_m = [], var_g = g0, var_s = s0, var_wg = 3, stdout = []\<rparr>"

text \<open>
  One step of a goroutine: the call of its client; the test of the error, with the
  line printed; one iteration of the loop, or the end of the loop; the assignment to
  \<^verbatim>\<open>g\<close> or \<^verbatim>\<open>s\<close>; the deferred \<^verbatim>\<open>wg.Done()\<close>. A goroutine that has ended stays as
  it is.
\<close>

definition step_rt ::
  "string \<Rightarrow> (string \<Rightarrow> 'a Movie_scheme list \<times> error)
     \<Rightarrow> ('a Movie_scheme, 'bk, 'al) config \<Rightarrow> abort + ('a Movie_scheme, 'bk, 'al) config" where
  "step_rt q SearchMovies cfg =
     (case pc_rt cfg of
        RtCall \<Rightarrow>
          (case SearchMovies q of (movies, err) \<Rightarrow> Inr (cfg\<lparr>pc_rt := RtPrint movies err\<rparr>))
      | RtPrint movies err \<Rightarrow>
          Inr (cfg\<lparr>pc_rt := RtRange movies,
                   stdout := stdout cfg @ report ''ERROR (rt): '' err\<rparr>)
      | RtRange [] \<Rightarrow> Inr (cfg\<lparr>pc_rt := RtDone\<rparr>)
      | RtRange (mov # movies) \<Rightarrow>
          (case truncate (Movie.Title mov) ''...'' 60 of
             Inl e \<Rightarrow> Inl e
           | Inr t \<Rightarrow>
               Inr (cfg\<lparr>pc_rt := RtRange movies,
                        var_m := var_m cfg @ [mov\<lparr>Movie.Title := t\<rparr>]\<rparr>))
      | RtDone \<Rightarrow>
          (case wg_Done (var_wg cfg) of
             Inl e \<Rightarrow> Inl e
           | Inr n \<Rightarrow> Inr (cfg\<lparr>pc_rt := RtExit, var_wg := n\<rparr>))
      | RtExit \<Rightarrow> Inr cfg)"

definition step_gr ::
  "string \<Rightarrow> (string \<Rightarrow> ('b, 'w, 'r, 'g) GoodreadsResponse_scheme \<times> error)
     \<Rightarrow> ('mv, ('b, 'w, 'r, 'g) GoodreadsResponse_scheme, 'al) config
     \<Rightarrow> abort + ('mv, ('b, 'w, 'r, 'g) GoodreadsResponse_scheme, 'al) config" where
  "step_gr q SearchBooks cfg =
     (case pc_gr cfg of
        GrCall \<Rightarrow>
          (case SearchBooks q of (books, err) \<Rightarrow> Inr (cfg\<lparr>pc_gr := GrPrint books err\<rparr>))
      | GrPrint books err \<Rightarrow>
          Inr (cfg\<lparr>pc_gr := GrRange 0 (length (Works (GoodreadsResponse.Search books))) books,
                   stdout := stdout cfg @ report ''ERROR (gr): '' err\<rparr>)
      | GrRange i n books \<Rightarrow>
          (if i < n then
             (case index_at (Works (GoodreadsResponse.Search books)) i of
                Inl e \<Rightarrow> Inl e
              | Inr w \<Rightarrow>
                  (case truncate (BestBook.Title (BestBook w)) ''...'' 60 of
                     Inl e \<Rightarrow> Inl e
                   | Inr t \<Rightarrow>
                       (case store_at (Works (GoodreadsResponse.Search books)) i
                               (w\<lparr>BestBook := (BestBook w)\<lparr>BestBook.Title := t\<rparr>\<rparr>) of
                          Inl e \<Rightarrow> Inl e
                        | Inr works' \<Rightarrow>
                            Inr (cfg\<lparr>pc_gr := GrRange (i + 1) n
                                     (books\<lparr>GoodreadsResponse.Search :=
                                        (GoodreadsResponse.Search books)\<lparr>Works := works'\<rparr>\<rparr>)\<rparr>))))
           else Inr (cfg\<lparr>pc_gr := GrAssign books\<rparr>))
      | GrAssign books \<Rightarrow> Inr (cfg\<lparr>pc_gr := GrDone, var_g := books\<rparr>)
      | GrDone \<Rightarrow>
          (case wg_Done (var_wg cfg) of
             Inl e \<Rightarrow> Inl e
           | Inr n \<Rightarrow> Inr (cfg\<lparr>pc_gr := GrExit, var_wg := n\<rparr>))
      | GrExit \<Rightarrow> Inr cfg)"

definition step_sp ::
  "string \<Rightarrow> (string \<Rightarrow> ('c, 's) SearchAlbumsResponse_scheme \<times> error)
     \<Rightarrow> ('mv, 'bk, ('c, 's) SearchAlbumsResponse_scheme) config
     \<Rightarrow> abort + ('mv, 'bk, ('c, 's) SearchAlbumsResponse_scheme) config" where
  "step_sp q SearchAlbums cfg =
     (case pc_sp cfg of
        SpCall \<Rightarrow>
          (case SearchAlbums q of (albums, err) \<Rightarrow> Inr (cfg\<lparr>pc_sp := SpPrint albums err\<rparr>))
      | SpPrint albums err \<Rightarrow>
          Inr (cfg\<lparr>pc_sp := SpRange 0 (length (Albums albums)) albums,
                   stdout := stdout cfg @ report ''ERROR (sp): '' err\<rparr>)
      | SpRange i n albums \<Rightarrow>
          (if i < n then
             (case index_at (Albums albums) i of
                Inl e \<Rightarrow> Inl e
              | Inr a \<Rightarrow>
                  (case truncate (Name a) ''...'' 60 of
                     Inl e \<Rightarrow> Inl e
                   | Inr t \<Rightarrow>
                       (case store_at (Albums albums) i (a\<lparr>Name := t\<rparr>) of
                          Inl e \<Rightarrow> Inl e
                        | Inr as \<Rightarrow>
                            Inr (cfg\<lparr>pc_sp := SpRange (i + 1) n (albums\<lparr>Albums := as\<rparr>)\<rparr>))))
           else Inr (cfg\<lparr>pc_sp := SpAssign albums\<rparr>))
      | SpAssign albums \<Rightarrow> Inr (cfg\<lparr>pc_sp := SpDone, var_s := albums\<rparr>)
      | SpDone \<Rightarrow>
          (case wg_Done (var_wg cfg) of
             Inl e \<Rightarrow> Inl e
           | Inr n \<Rightarrow> Inr (cfg\<lparr>pc_sp := SpExit, var_wg := n\<rparr>))
      | SpExit \<Rightarrow> Inr cfg)"

text \<open>
  A schedule is the list of the goroutines in the order in which they take their steps.
  A panic in a step ends the run.
\<close>

definition step ::
  "string \<Rightarrow> (string \<Rightarrow> 'a Movie_scheme list \<times> error)
     \<Rightarrow> (string \<Rightarrow> ('b, 'w, 'r, 'g) GoodreadsResponse_scheme \<times> error)
     \<Rightarrow> (string \<Rightarrow> ('c, 's) SearchAlbumsResponse_scheme \<times> error)
     \<Rightarrow> tid
     \<Rightarrow> ('a Movie_scheme, ('b, 'w, 'r, 'g) GoodreadsResponse_scheme,
          ('c, 's) SearchAlbumsResponse_scheme) config
     \<Rightarrow> abort + ('a Movie_scheme, ('b, 'w, 'r, 'g) GoodreadsResponse_scheme,
          ('c, 's) SearchAlbumsResponse_scheme) config" where
  "step q SearchMovies SearchBooks SearchAlbums t cfg =
     (case t of
        T_rt \<Rightarrow> step_rt q SearchMovies cfg
      | T_gr \<Rightarrow> step_gr q SearchBooks cfg
      | T_sp \<Rightarrow> step_sp q SearchAlbums cfg)"

fun run ::
  "string \<Rightarrow> (string \<Rightarrow> 'a Movie_scheme list \<times> error)
     \<Rightarrow> (string \<Rightarrow> ('b, 'w, 'r, 'g) GoodreadsResponse_scheme \<times> error)
     \<Rightarrow> (string \<Rightarrow> ('c, 's) SearchAlbumsResponse_scheme \<times> error)
     \<Rightarrow> tid list
     \<Rightarrow> ('a Movie_scheme, ('b, 'w, 'r, 'g) GoodreadsResponse_scheme,
          ('c, 's) SearchAlbumsResponse_scheme) config
     \<Rightarrow> abort + ('a Movie_scheme, ('b, 'w, 'r, 'g) GoodreadsResponse_scheme,
          ('c, 's) SearchAlbumsResponse_scheme) config" where
  "run q SearchMovies SearchBooks SearchAlbums [] cfg = Inr cfg"
| "run q SearchMovies SearchBooks SearchAlbums (t # sch) cfg =
     (case step q SearchMovies SearchBooks SearchAlbums t cfg of
        Inl e \<Rightarrow> Inl e
      | Inr cfg' \<Rightarrow> run q SearchMovies SearchBooks SearchAlbums sch cfg')"

text \<open>
  What holds in every configuration of a run: the loop of each goroutine has replaced
  the titles of the items before its index and of no others, the shared result of a
  goroutine that is past its assignment is its final value, and the counter of the
  wait group is the number of goroutines that have not ended. The measures
  \<open>left_rt\<close>, \<open>left_gr\<close>, \<open>left_sp\<close> are the numbers of steps that a goroutine has left.
\<close>

definition inv_rt ::
  "'a Movie_scheme list \<Rightarrow> 'a Movie_scheme rt_pc \<Rightarrow> 'a Movie_scheme list \<Rightarrow> bool" where
  "inv_rt payload pc m =
     (case pc of
        RtCall \<Rightarrow> m = []
      | RtPrint movies err \<Rightarrow> movies = payload \<and> m = []
      | RtRange rest \<Rightarrow>
          (\<exists>k\<le>length payload. rest = drop k payload \<and> m = map movie60 (take k payload))
      | RtDone \<Rightarrow> m = map movie60 payload
      | RtExit \<Rightarrow> m = map movie60 payload)"

definition inv_gr ::
  "('b, 'w, 'r, 'g) GoodreadsResponse_scheme
     \<Rightarrow> ('b, 'w, 'r, 'g) GoodreadsResponse_scheme gr_pc
     \<Rightarrow> ('b, 'w, 'r, 'g) GoodreadsResponse_scheme \<Rightarrow> bool" where
  "inv_gr payload pc g =
     (case pc of
        GrCall \<Rightarrow> True
      | GrPrint books err \<Rightarrow> books = payload
      | GrRange i n books \<Rightarrow>
          n = length (Works (GoodreadsResponse.Search payload)) \<and> i \<le> n \<and>
          books = payload\<lparr>GoodreadsResponse.Search :=
                    (GoodreadsResponse.Search payload)\<lparr>Works :=
                       map work60 (take i (Works (GoodreadsResponse.Search payload))) @
                       drop i (Works (GoodreadsResponse.Search payload))\<rparr>\<rparr>
      | GrAssign books \<Rightarrow> books = books60 payload
      | GrDone \<Rightarrow> g = books60 payload
      | GrExit \<Rightarrow> g = books60 payload)"

definition inv_sp ::
  "('c, 's) SearchAlbumsResponse_scheme
     \<Rightarrow> ('c, 's) SearchAlbumsResponse_scheme sp_pc
     \<Rightarrow> ('c, 's) SearchAlbumsResponse_scheme \<Rightarrow> bool" where
  "inv_sp payload pc s =
     (case pc of
        SpCall \<Rightarrow> True
      | SpPrint albums err \<Rightarrow> albums = payload
      | SpRange i n albums \<Rightarrow>
          n = length (Albums payload) \<and> i \<le> n \<and>
          albums = payload\<lparr>Albums :=
                     map album60 (take i (Albums payload)) @ drop i (Albums payload)\<rparr>
      | SpAssign albums \<Rightarrow> albums = albums60 payload
      | SpDone \<Rightarrow> s = albums60 payload
      | SpExit \<Rightarrow> s = albums60 payload)"

definition running :: "('mv, 'bk, 'al) config \<Rightarrow> int" where
  "running cfg =
     (if pc_rt cfg = RtExit then 0 else 1) + (if pc_gr cfg = GrExit then 0 else 1) +
     (if pc_sp cfg = SpExit then 0 else 1)"

definition inv ::
  "string \<Rightarrow> (string \<Rightarrow> 'a Movie_scheme list \<times> error)
     \<Rightarrow> (string \<Rightarrow> ('b, 'w, 'r, 'g) GoodreadsResponse_scheme \<times> error)
     \<Rightarrow> (string \<Rightarrow> ('c, 's) SearchAlbumsResponse_scheme \<times> error)
     \<Rightarrow> ('a Movie_scheme, ('b, 'w, 'r, 'g) GoodreadsResponse_scheme,
          ('c, 's) SearchAlbumsResponse_scheme) config \<Rightarrow> bool" where
  "inv q SearchMovies SearchBooks SearchAlbums cfg =
     (inv_rt (fst (SearchMovies q)) (pc_rt cfg) (var_m cfg) \<and>
      inv_gr (fst (SearchBooks q)) (pc_gr cfg) (var_g cfg) \<and>
      inv_sp (fst (SearchAlbums q)) (pc_sp cfg) (var_s cfg) \<and>
      var_wg cfg = running cfg)"

definition left_rt :: "'mv list \<Rightarrow> 'mv rt_pc \<Rightarrow> nat" where
  "left_rt payload pc =
     (case pc of
        RtCall \<Rightarrow> length payload + 4
      | RtPrint movies err \<Rightarrow> length movies + 3
      | RtRange rest \<Rightarrow> length rest + 2
      | RtDone \<Rightarrow> 1
      | RtExit \<Rightarrow> 0)"

definition left_gr ::
  "('b, 'w, 'r, 'g) GoodreadsResponse_scheme
     \<Rightarrow> ('b, 'w, 'r, 'g) GoodreadsResponse_scheme gr_pc \<Rightarrow> nat" where
  "left_gr payload pc =
     (case pc of
        GrCall \<Rightarrow> length (Works (GoodreadsResponse.Search payload)) + 5
      | GrPrint books err \<Rightarrow> length (Works (GoodreadsResponse.Search books)) + 4
      | GrRange i n books \<Rightarrow> (n - i) + 3
      | GrAssign books \<Rightarrow> 2
      | GrDone \<Rightarrow> 1
      | GrExit \<Rightarrow> 0)"

definition left_sp ::
  "('c, 's) SearchAlbumsResponse_scheme \<Rightarrow> ('c, 's) SearchAlbumsResponse_scheme sp_pc \<Rightarrow> nat" where
  "left_sp payload pc =
     (case pc of
        SpCall \<Rightarrow> length (Albums payload) + 5
      | SpPrint albums err \<Rightarrow> length (Albums albums) + 4
      | SpRange i n albums \<Rightarrow> (n - i) + 3
      | SpAssign albums \<Rightarrow> 2
      | SpDone \<Rightarrow> 1
      | SpExit \<Rightarrow> 0)"

subsection \<open>Example clients\<close>

text \<open>
  Clients for the concrete runs below: the three services out of reach (an error and the
  zero payload), two clients that return an error together with a payload that is not
  empty, and three clients that answer. In the last three the fields of the items that
  \<^verbatim>\<open>Search\<close> does not touch hold a link, an author and a year.
\<close>

definition rt_down :: "string \<Rightarrow> Movie list \<times> error" where
  "rt_down q = ([], Some ''connection refused'')"

definition gr_down :: "string \<Rightarrow> (unit, unit, unit) GoodreadsResponse \<times> error" where
  "gr_down q = (\<lparr>GoodreadsResponse.Search = \<lparr>Works = []\<rparr>\<rparr>, Some ''connection refused'')"

definition sp_down :: "string \<Rightarrow> unit SearchAlbumsResponse \<times> error" where
  "sp_down q = (\<lparr>Albums = []\<rparr>, Some ''connection refused'')"

definition rt_partial :: "string \<Rightarrow> Movie list \<times> error" where
  "rt_partial q = ([\<lparr>Movie.Title = ''Up''\<rparr>], Some ''unexpected EOF'')"

definition gr_partial :: "string \<Rightarrow> (unit, unit, unit) GoodreadsResponse \<times> error" where
  "gr_partial q =
     (\<lparr>GoodreadsResponse.Search = \<lparr>Works = [\<lparr>BestBook = \<lparr>BestBook.Title = ''Dune''\<rparr>\<rparr>]\<rparr>\<rparr>,
      Some ''unexpected EOF'')"

definition rt_ok :: "string \<Rightarrow> string Movie_scheme list \<times> error" where
  "rt_ok q =
     ([\<lparr>Movie.Title = ''Dr. Strangelove or: How I Learned to Stop Worrying and Love the Bomb'',
        \<dots> = ''/m/dr_strangelove''\<rparr>,
       \<lparr>Movie.Title = ''Brazil'', \<dots> = ''/m/brazil''\<rparr>], None)"

definition gr_ok :: "string \<Rightarrow> (string, nat, unit, unit) GoodreadsResponse_scheme \<times> error" where
  "gr_ok q =
     (\<lparr>GoodreadsResponse.Search = \<lparr>Works =
         [\<lparr>BestBook = \<lparr>BestBook.Title = ''Dune'', \<dots> = ''Frank Herbert''\<rparr>, \<dots> = 1965\<rparr>,
          \<lparr>BestBook = \<lparr>BestBook.Title = ''Solaris'', \<dots> = ''Stanislaw Lem''\<rparr>, \<dots> = 1961\<rparr>],
         \<dots> = ()\<rparr>, \<dots> = ()\<rparr>, None)"

definition sp_ok :: "string \<Rightarrow> (string, unit) SearchAlbumsResponse_scheme \<times> error" where
  "sp_ok q =
     (\<lparr>Albums = [\<lparr>Name = ''Kind of Blue'', \<dots> = ''spotify:album:1''\<rparr>], \<dots> = ()\<rparr>, None)"

definition sp_partial :: "string \<Rightarrow> unit SearchAlbumsResponse \<times> error" where
  "sp_partial q = (\<lparr>Albums = [\<lparr>Name = ''Blue''\<rparr>]\<rparr>, Some ''unexpected EOF'')"

text \<open>
  A schedule for the run in which the three services are out of reach: four steps of
  the first goroutine and five of each of the other two, interleaved.
\<close>

definition sch_down :: "tid list" where
  "sch_down = [T_sp, T_rt, T_gr, T_gr, T_sp, T_rt, T_rt, T_sp, T_gr, T_sp, T_gr, T_rt, T_gr, T_sp]"

text \<open>
  What \<^verbatim>\<open>Search\<close> returns for the query \<^verbatim>\<open>love\<close> and the three clients that answer:
  the first title has 68 bytes and is cut to 60 bytes and the suffix.
\<close>

definition m_ok :: "string Movie_scheme list" where
  "m_ok =
     [\<lparr>Movie.Title = ''Dr. Strangelove or: How I Learned to Stop Worrying and Love ...'',
       \<dots> = ''/m/dr_strangelove''\<rparr>,
      \<lparr>Movie.Title = ''Brazil'', \<dots> = ''/m/brazil''\<rparr>]"

definition g_ok :: "(string, nat, unit, unit) GoodreadsResponse_scheme" where
  "g_ok =
     \<lparr>GoodreadsResponse.Search = \<lparr>Works =
        [\<lparr>BestBook = \<lparr>BestBook.Title = ''Dune'', \<dots> = ''Frank Herbert''\<rparr>, \<dots> = 1965\<rparr>,
         \<lparr>BestBook = \<lparr>BestBook.Title = ''Solaris'', \<dots> = ''Stanislaw Lem''\<rparr>, \<dots> = 1961\<rparr>],
        \<dots> = ()\<rparr>, \<dots> = ()\<rparr>"

definition s_ok :: "(string, unit) SearchAlbumsResponse_scheme" where
  "s_ok = \<lparr>Albums = [\<lparr>Name = ''Kind of Blue'', \<dots> = ''spotify:album:1''\<rparr>], \<dots> = ()\<rparr>"

definition tr_ok :: "trace \<times> trace \<times> trace" where
  "tr_ok =
     (\<lparr>printed = [],
       truncated =
         [''Dr. Strangelove or: How I Learned to Stop Worrying and Love the Bomb'',
          ''Brazil'']\<rparr>,
      \<lparr>printed = [], truncated = [''Dune'', ''Solaris'']\<rparr>,
      \<lparr>printed = [], truncated = [''Kind of Blue'']\<rparr>)"

section \<open>Properties of \<^verbatim>\<open>truncate\<close>\<close>

lemma truncate_below: "int (length s) < l \<Longrightarrow> truncate s suf l = Inr s"
  by (simp add: truncate_def)

lemma truncate_from:
  "0 \<le> l \<Longrightarrow> l \<le> int (length s) \<Longrightarrow> truncate s suf l = Inr (take (nat l) s @ suf)"
  by (simp add: truncate_def slice_to_def)

lemma truncate_negative: "l < 0 \<Longrightarrow> truncate s suf l = Inl SliceBoundsOutOfRange"
  by (simp add: truncate_def slice_to_def)

text \<open>
  C4, as the specification states it, with the bound counted in characters: it fails.
  The title below is three times the letter e with an acute accent, two bytes each in
  UTF-8: three characters, six bytes. With the bound 4 the rule of the specification
  returns it unchanged, since three characters are fewer than four; the code compares
  the six bytes with 4 and returns the first four bytes and the suffix.
\<close>

theorem truncate_chars_counterexample:
  "rune_count [CHR 0xC3, CHR 0xA9, CHR 0xC3, CHR 0xA9, CHR 0xC3, CHR 0xA9] = 3
   \<and> truncate_chars_spec [CHR 0xC3, CHR 0xA9, CHR 0xC3, CHR 0xA9, CHR 0xC3, CHR 0xA9] ''...'' 4
       = [CHR 0xC3, CHR 0xA9, CHR 0xC3, CHR 0xA9, CHR 0xC3, CHR 0xA9]
   \<and> truncate [CHR 0xC3, CHR 0xA9, CHR 0xC3, CHR 0xA9, CHR 0xC3, CHR 0xA9] ''...'' 4
       = Inr [CHR 0xC3, CHR 0xA9, CHR 0xC3, CHR 0xA9, CHR ''.'', CHR ''.'', CHR ''.'']
   \<and> truncate [CHR 0xC3, CHR 0xA9, CHR 0xC3, CHR 0xA9, CHR 0xC3, CHR 0xA9] ''...'' 4
       \<noteq> Inr (truncate_chars_spec
                [CHR 0xC3, CHR 0xA9, CHR 0xC3, CHR 0xA9, CHR 0xC3, CHR 0xA9] ''...'' 4)"
  by (simp add: truncate_def slice_to_def truncate_chars_spec_def rune_count_def
      is_continuation_def)

text \<open>
  C4, amended: lengths and prefixes are counted in bytes. A title of fewer than \<open>l\<close>
  bytes is returned unchanged; for a bound \<open>l \<ge> 0\<close>, a title of more than \<open>l\<close> bytes is
  cut to its first \<open>l\<close> bytes, followed by the suffix. (A title of exactly \<open>l\<close> bytes
  is the subject of C5.)
\<close>

theorem truncate_bytes:
  "(int (length s) < l \<longrightarrow> truncate s suf l = Inr s) \<and>
   (0 \<le> l \<and> l < int (length s) \<longrightarrow> truncate s suf l = Inr (take (nat l) s @ suf))"
  by (simp add: truncate_below truncate_from)

theorem truncate_bytes_witness:
  "int (length ''Brazil'') < 60 \<and> truncate ''Brazil'' ''...'' 60 = Inr ''Brazil''
   \<and> (0::int) \<le> 3 \<and> 3 < int (length ''Brazil'')
   \<and> truncate ''Brazil'' ''...'' 3 = Inr ''Bra...''"
  using truncate_bytes [of "''Brazil''" 60 "''...''"] truncate_bytes [of "''Brazil''" 3 "''...''"]
  by simp

text \<open>
  C5 says that a title whose length is exactly the bound is returned unchanged. The code
  tests \<^verbatim>\<open>len(s) < l\<close>, so such a title takes the second branch: nothing is cut off,
  and the suffix is appended all the same. Here a title of exactly 60 bytes, with the
  arguments that \<^verbatim>\<open>Search\<close> passes.
\<close>

theorem truncate_boundary_appends_suffix:
  "length ''Dr. Strangelove or: How I Learned to Stop Worrying and Love.'' = 60
   \<and> truncate ''Dr. Strangelove or: How I Learned to Stop Worrying and Love.'' ''...'' 60
       = Inr ''Dr. Strangelove or: How I Learned to Stop Worrying and Love....''"
  by (simp add: truncate_def slice_to_def)

text \<open>
  C6: truncating the result of a truncation again, with the same suffix and bound, gives
  the same result as truncating once. When the first call cuts, its result begins with
  the \<open>l\<close> bytes that were kept, so the second call keeps the same bytes and appends the
  same suffix. (For a negative bound both sides are the panic of the first call.)
\<close>

theorem truncate_idempotent:
  "(case truncate s suf l of Inl e \<Rightarrow> Inl e | Inr r \<Rightarrow> truncate r suf l) = truncate s suf l"
  by (auto simp: truncate_def slice_to_def split: sum.splits)

text \<open>
  C10: for a bound \<open>l \<ge> 0\<close>, \<^verbatim>\<open>truncate\<close> returns a string and does not panic: on the
  branch that evaluates \<^verbatim>\<open>s[:l]\<close> the length of \<open>s\<close> is at least \<open>l\<close>, so the slice
  expression is in range and yields the first \<open>l\<close> bytes.
\<close>

theorem truncate_total:
  "0 \<le> l \<Longrightarrow>
     (\<exists>r. truncate s suf l = Inr r) \<and>
     (\<not> int (length s) < l \<longrightarrow> slice_to s l = Inr (take (nat l) s))"
  by (simp add: truncate_def slice_to_def)

theorem truncate_total_witness:
  "(0::int) \<le> 4 \<and> \<not> int (length ''Solaris'') < 4
   \<and> truncate ''Solaris'' ''...'' 4 = Inr ''Sola...''
   \<and> slice_to ''Solaris'' 4 = Inr ''Sola''"
  using truncate_total [of 4 "''Solaris''" "''...''"]
  by (simp add: truncate_def)

section \<open>Properties of \<^verbatim>\<open>Search\<close>\<close>

subsection \<open>The loops and the goroutines in closed form\<close>

text \<open>
  \<^verbatim>\<open>Search\<close> passes the bound 60, so its calls of \<^verbatim>\<open>truncate\<close> do not panic. Each
  loop visits the items from first to last and replaces the title of each; the indices
  of the two loops that store by index are in range.
\<close>

lemma truncate_60: "truncate t ''...'' 60 = Inr (title60 t)"
  by (simp add: truncate_def slice_to_def title60_def)

lemma range_movies_eq:
  "range_movies movies (m, calls) =
     Inr (m @ map movie60 movies, calls @ map Movie.Title movies)"
  by (induction movies arbitrary: m calls) (simp_all add: truncate_60 movie60_def)

lemma range_works_step:
  "i < length works \<Longrightarrow>
   range_works i (length works) (works, calls) =
     range_works (i + 1) (length works)
       (works[i := work60 (works ! i)], calls @ [BestBook.Title (BestBook (works ! i))])"
  by (subst range_works.simps)
     (simp add: index_at_def store_at_def truncate_60 work60_def)

lemma range_works_eq:
  "i \<le> length works \<Longrightarrow>
   range_works i (length works) (works, calls) =
     Inr (take i works @ map work60 (drop i works),
          calls @ map (\<lambda>w. BestBook.Title (BestBook w)) (drop i works))"
proof (induction k \<equiv> "length works - i" arbitrary: i works calls)
  case 0
  then show ?case by (subst range_works.simps) simp
next
  case (Suc k)
  let ?w = "works ! i"
  let ?works' = "works[i := work60 ?w]"
  have lt: "i < length works" using Suc.hyps(2) by simp
  have ih: "range_works (i + 1) (length ?works') (?works', calls @ [BestBook.Title (BestBook ?w)]) =
      Inr (take (i + 1) ?works' @ map work60 (drop (i + 1) ?works'),
           (calls @ [BestBook.Title (BestBook ?w)]) @
             map (\<lambda>w. BestBook.Title (BestBook w)) (drop (i + 1) ?works'))"
    using Suc.hyps(2) lt by (intro Suc.hyps(1)) simp_all
  have d: "drop i works = ?w # drop (Suc i) works"
    using lt by (simp add: Cons_nth_drop_Suc)
  have t: "take (Suc i) ?works' = take i works @ [work60 ?w]"
    using lt by (simp add: take_Suc_conv_app_nth)
  show ?case
    using ih lt by (simp add: range_works_step d t)
qed

lemma range_albums_step:
  "i < length albums \<Longrightarrow>
   range_albums i (length albums) (albums, calls) =
     range_albums (i + 1) (length albums)
       (albums[i := album60 (albums ! i)], calls @ [Name (albums ! i)])"
  by (subst range_albums.simps)
     (simp add: index_at_def store_at_def truncate_60 album60_def)

lemma range_albums_eq:
  "i \<le> length albums \<Longrightarrow>
   range_albums i (length albums) (albums, calls) =
     Inr (take i albums @ map album60 (drop i albums), calls @ map Name (drop i albums))"
proof (induction k \<equiv> "length albums - i" arbitrary: i albums calls)
  case 0
  then show ?case by (subst range_albums.simps) simp
next
  case (Suc k)
  let ?a = "albums ! i"
  let ?albums' = "albums[i := album60 ?a]"
  have lt: "i < length albums" using Suc.hyps(2) by simp
  have ih: "range_albums (i + 1) (length ?albums') (?albums', calls @ [Name ?a]) =
      Inr (take (i + 1) ?albums' @ map album60 (drop (i + 1) ?albums'),
           (calls @ [Name ?a]) @ map Name (drop (i + 1) ?albums'))"
    using Suc.hyps(2) lt by (intro Suc.hyps(1)) simp_all
  have d: "drop i albums = ?a # drop (Suc i) albums"
    using lt by (simp add: Cons_nth_drop_Suc)
  have t: "take (Suc i) ?albums' = take i albums @ [album60 ?a]"
    using lt by (simp add: take_Suc_conv_app_nth)
  show ?case
    using ih lt by (simp add: range_albums_step d t)
qed

lemma go_rt_eq:
  "go_rt q A =
     Inr (map movie60 (fst (A q)),
          \<lparr>printed = report ''ERROR (rt): '' (snd (A q)),
           truncated = map Movie.Title (fst (A q))\<rparr>)"
  by (simp add: go_rt_def range_movies_eq split: prod.splits)

lemma go_gr_eq:
  "go_gr q B =
     Inr (books60 (fst (B q)),
          \<lparr>printed = report ''ERROR (gr): '' (snd (B q)),
           truncated = map (\<lambda>w. BestBook.Title (BestBook w))
                         (Works (GoodreadsResponse.Search (fst (B q))))\<rparr>)"
  by (simp add: go_gr_def range_works_eq books60_def split: prod.splits)

lemma go_sp_eq:
  "go_sp q C =
     Inr (albums60 (fst (C q)),
          \<lparr>printed = report ''ERROR (sp): '' (snd (C q)),
           truncated = map Name (Albums (fst (C q)))\<rparr>)"
  by (simp add: go_sp_def range_albums_eq albums60_def split: prod.splits)

lemma Search_eq:
  "Search q A B C =
     Inr ((map movie60 (fst (A q)), books60 (fst (B q)), albums60 (fst (C q))),
          (\<lparr>printed = report ''ERROR (rt): '' (snd (A q)),
            truncated = map Movie.Title (fst (A q))\<rparr>,
           \<lparr>printed = report ''ERROR (gr): '' (snd (B q)),
            truncated = map (\<lambda>w. BestBook.Title (BestBook w))
                          (Works (GoodreadsResponse.Search (fst (B q))))\<rparr>,
           \<lparr>printed = report ''ERROR (sp): '' (snd (C q)),
            truncated = map Name (Albums (fst (C q)))\<rparr>))"
  by (simp add: Search_def go_rt_eq go_gr_eq go_sp_eq wg_Add_def wg_Done_def wg_Wait_def)

subsection \<open>Every interleaving returns what \<^verbatim>\<open>Search\<close> returns\<close>

text \<open>
  No step of any schedule panics; when the counter of the wait group is zero, so that
  \<^verbatim>\<open>Wait\<close> returns, the variables \<^verbatim>\<open>m\<close>, \<^verbatim>\<open>g\<close>, \<^verbatim>\<open>s\<close> hold the values that the
  function \<open>Search\<close> above computes; and the counter is zero as soon as every goroutine
  has been given the steps it needs.
\<close>

lemma inv_init: "inv q A B C (init g0 s0)"
  by (simp add: inv_def init_def inv_rt_def inv_gr_def inv_sp_def running_def)

lemma step_rt_inv:
  assumes "inv q A B C cfg"
  shows "\<exists>cfg'. step_rt q A cfg = Inr cfg' \<and> inv q A B C cfg'"
proof (cases "pc_rt cfg")
  case RtCall
  with assms show ?thesis
    by (auto simp: step_rt_def inv_def inv_rt_def running_def split: prod.splits)
next
  case (RtPrint movies err)
  with assms show ?thesis
    by (auto simp: step_rt_def inv_def inv_rt_def running_def intro: exI [of _ 0])
next
  case (RtRange rest)
  from assms RtRange obtain k where k: "k \<le> length (fst (A q))" "rest = drop k (fst (A q))"
      "var_m cfg = map movie60 (take k (fst (A q)))"
    by (auto simp: inv_def inv_rt_def)
  show ?thesis
  proof (cases rest)
    case Nil
    with k have "k = length (fst (A q))" by simp
    with assms RtRange Nil k show ?thesis
      by (auto simp: step_rt_def inv_def inv_rt_def running_def)
  next
    case (Cons mov rest')
    have lt: "k < length (fst (A q))"
    proof (rule ccontr)
      assume "\<not> k < length (fst (A q))"
      then have "drop k (fst (A q)) = []" by simp
      with k Cons show False by simp
    qed
    have "drop k (fst (A q)) = fst (A q) ! k # drop (Suc k) (fst (A q))"
      using lt by (simp add: Cons_nth_drop_Suc)
    with k Cons have mov: "mov = fst (A q) ! k" and rest': "rest' = drop (Suc k) (fst (A q))"
      by simp_all
    have "var_m cfg @ [movie60 mov] = map movie60 (take (Suc k) (fst (A q)))"
      using k lt mov by (simp add: take_Suc_conv_app_nth)
    with assms RtRange Cons lt rest' show ?thesis
      by (auto simp: step_rt_def inv_def inv_rt_def running_def truncate_60 movie60_def
          intro!: exI [of _ "Suc k"])
  qed
next
  case RtDone
  with assms show ?thesis
    by (auto simp: step_rt_def inv_def inv_rt_def running_def wg_Done_def wg_Add_def)
next
  case RtExit
  with assms show ?thesis
    by (auto simp: step_rt_def)
qed


lemma nth_done_todo:
  "i < length xs \<Longrightarrow> (map f (take i xs) @ drop i xs) ! i = xs ! i"
  by (simp add: nth_append)

lemma update_done_todo:
  "i < length xs \<Longrightarrow>
   (map f (take i xs) @ drop i xs)[i := f (xs ! i)] =
     map f (take (Suc i) xs) @ drop (Suc i) xs"
  by (simp add: list_update_append take_Suc_conv_app_nth Cons_nth_drop_Suc [symmetric])

lemma step_gr_inv:
  assumes "inv q A B C cfg"
  shows "\<exists>cfg'. step_gr q B cfg = Inr cfg' \<and> inv q A B C cfg'"
proof (cases "pc_gr cfg")
  case GrCall
  with assms show ?thesis
    by (auto simp: step_gr_def inv_def inv_gr_def running_def split: prod.splits)
next
  case (GrPrint books err)
  with assms show ?thesis
    by (auto simp: step_gr_def inv_def inv_gr_def running_def)
next
  case (GrRange i n books)
  let ?ws = "Works (GoodreadsResponse.Search (fst (B q)))"
  from assms GrRange have n: "n = length ?ws" and i: "i \<le> n"
    and books: "books = (fst (B q))\<lparr>GoodreadsResponse.Search :=
                    (GoodreadsResponse.Search (fst (B q)))\<lparr>Works :=
                       map work60 (take i ?ws) @ drop i ?ws\<rparr>\<rparr>"
    by (auto simp: inv_def inv_gr_def)
  show ?thesis
  proof (cases "i < n")
    case True
    then have lt: "i < length ?ws" using n by simp
    from assms GrRange True lt n books show ?thesis
      by (auto simp: step_gr_def inv_def inv_gr_def running_def index_at_def store_at_def
          truncate_60 nth_done_todo update_done_todo work60_def [symmetric])
  next
    case False
    with i n have "i = length ?ws" by simp
    with assms GrRange False n books show ?thesis
      by (auto simp: step_gr_def inv_def inv_gr_def running_def books60_def)
  qed
next
  case (GrAssign books)
  with assms show ?thesis
    by (auto simp: step_gr_def inv_def inv_gr_def running_def)
next
  case GrDone
  with assms show ?thesis
    by (auto simp: step_gr_def inv_def inv_gr_def running_def wg_Done_def wg_Add_def)
next
  case GrExit
  with assms show ?thesis
    by (auto simp: step_gr_def)
qed

lemma step_sp_inv:
  assumes "inv q A B C cfg"
  shows "\<exists>cfg'. step_sp q C cfg = Inr cfg' \<and> inv q A B C cfg'"
proof (cases "pc_sp cfg")
  case SpCall
  with assms show ?thesis
    by (auto simp: step_sp_def inv_def inv_sp_def running_def split: prod.splits)
next
  case (SpPrint albums err)
  with assms show ?thesis
    by (auto simp: step_sp_def inv_def inv_sp_def running_def)
next
  case (SpRange i n albums)
  let ?as = "Albums (fst (C q))"
  from assms SpRange have n: "n = length ?as" and i: "i \<le> n"
    and albums: "albums = (fst (C q))\<lparr>Albums := map album60 (take i ?as) @ drop i ?as\<rparr>"
    by (auto simp: inv_def inv_sp_def)
  show ?thesis
  proof (cases "i < n")
    case True
    then have lt: "i < length ?as" using n by simp
    from assms SpRange True lt n albums show ?thesis
      by (auto simp: step_sp_def inv_def inv_sp_def running_def index_at_def store_at_def
          truncate_60 nth_done_todo update_done_todo album60_def [symmetric])
  next
    case False
    with i n have "i = length ?as" by simp
    with assms SpRange False n albums show ?thesis
      by (auto simp: step_sp_def inv_def inv_sp_def running_def albums60_def)
  qed
next
  case (SpAssign albums)
  with assms show ?thesis
    by (auto simp: step_sp_def inv_def inv_sp_def running_def)
next
  case SpDone
  with assms show ?thesis
    by (auto simp: step_sp_def inv_def inv_sp_def running_def wg_Done_def wg_Add_def)
next
  case SpExit
  with assms show ?thesis
    by (auto simp: step_sp_def)
qed

lemma step_inv:
  "inv q A B C cfg \<Longrightarrow> \<exists>cfg'. step q A B C t cfg = Inr cfg' \<and> inv q A B C cfg'"
  by (cases t) (simp_all add: step_def step_rt_inv step_gr_inv step_sp_inv)

lemma run_inv:
  "inv q A B C cfg \<Longrightarrow> \<exists>cfg'. run q A B C sch cfg = Inr cfg' \<and> inv q A B C cfg'"
proof (induction sch arbitrary: cfg)
  case Nil
  then show ?case by simp
next
  case (Cons t sch)
  from step_inv [OF Cons.prems] obtain cfg1
    where s: "step q A B C t cfg = Inr cfg1" and i: "inv q A B C cfg1"
    by blast
  from Cons.IH [OF i] s show ?case by simp
qed

lemma inv_joined:
  assumes "inv q A B C cfg" and "var_wg cfg = 0"
  shows "var_m cfg = map movie60 (fst (A q)) \<and> var_g cfg = books60 (fst (B q)) \<and>
         var_s cfg = albums60 (fst (C q))"
proof -
  from assms have "running cfg = 0" by (simp add: inv_def)
  then have "pc_rt cfg = RtExit" "pc_gr cfg = GrExit" "pc_sp cfg = SpExit"
    by (auto simp: running_def split: if_splits)
  with assms(1) show ?thesis
    by (simp add: inv_def inv_rt_def inv_gr_def inv_sp_def)
qed


lemma step_rt_left:
  "step_rt q A cfg = Inr cfg' \<Longrightarrow>
     left_rt (fst (A q)) (pc_rt cfg') = left_rt (fst (A q)) (pc_rt cfg) - 1 \<and>
     pc_gr cfg' = pc_gr cfg \<and> pc_sp cfg' = pc_sp cfg"
  by (auto simp: step_rt_def left_rt_def
      split: rt_pc.splits prod.splits list.splits sum.splits)

lemma step_gr_left:
  "step_gr q B cfg = Inr cfg' \<Longrightarrow>
     left_gr (fst (B q)) (pc_gr cfg') = left_gr (fst (B q)) (pc_gr cfg) - 1 \<and>
     pc_rt cfg' = pc_rt cfg \<and> pc_sp cfg' = pc_sp cfg"
  by (auto simp: step_gr_def left_gr_def
      split: gr_pc.splits prod.splits sum.splits if_splits)

lemma step_sp_left:
  "step_sp q C cfg = Inr cfg' \<Longrightarrow>
     left_sp (fst (C q)) (pc_sp cfg') = left_sp (fst (C q)) (pc_sp cfg) - 1 \<and>
     pc_rt cfg' = pc_rt cfg \<and> pc_gr cfg' = pc_gr cfg"
  by (auto simp: step_sp_def left_sp_def
      split: sp_pc.splits prod.splits sum.splits if_splits)

lemma run_left:
  "run q A B C sch cfg = Inr cfg' \<Longrightarrow>
     left_rt (fst (A q)) (pc_rt cfg') =
       left_rt (fst (A q)) (pc_rt cfg) - count_list sch T_rt \<and>
     left_gr (fst (B q)) (pc_gr cfg') =
       left_gr (fst (B q)) (pc_gr cfg) - count_list sch T_gr \<and>
     left_sp (fst (C q)) (pc_sp cfg') =
       left_sp (fst (C q)) (pc_sp cfg) - count_list sch T_sp"
proof (induction sch arbitrary: cfg)
  case Nil
  then show ?case by simp
next
  case (Cons t sch)
  from Cons.prems obtain cfg1
    where s: "step q A B C t cfg = Inr cfg1" and r: "run q A B C sch cfg1 = Inr cfg'"
    by (auto split: sum.splits)
  note ih = Cons.IH [OF r]
  show ?case
  proof (cases t)
    case T_rt
    with s have "step_rt q A cfg = Inr cfg1" by (simp add: step_def)
    from step_rt_left [OF this] ih T_rt show ?thesis by simp
  next
    case T_gr
    with s have "step_gr q B cfg = Inr cfg1" by (simp add: step_def)
    from step_gr_left [OF this] ih T_gr show ?thesis by simp
  next
    case T_sp
    with s have "step_sp q C cfg = Inr cfg1" by (simp add: step_def)
    from step_sp_left [OF this] ih T_sp show ?thesis by simp
  qed
qed

lemma interleaved_agrees:
  "\<exists>cfg. run q A B C sch (init g0 s0) = Inr cfg \<and>
     (var_wg cfg = 0 \<longrightarrow>
        (\<exists>tr. Search q A B C = Inr ((var_m cfg, var_g cfg, var_s cfg), tr)))"
proof -
  from run_inv [OF inv_init] obtain cfg
    where r: "run q A B C sch (init g0 s0) = Inr cfg" and i: "inv q A B C cfg"
    by blast
  from inv_joined [OF i] r show ?thesis
    by (auto simp: Search_eq)
qed

lemma interleaved_joins:
  assumes "length (fst (A q)) + 4 \<le> count_list sch T_rt"
    and "length (Works (GoodreadsResponse.Search (fst (B q)))) + 5 \<le> count_list sch T_gr"
    and "length (Albums (fst (C q))) + 5 \<le> count_list sch T_sp"
  shows "\<exists>cfg. run q A B C sch (init g0 s0) = Inr cfg \<and> var_wg cfg = 0"
proof -
  from run_inv [OF inv_init] obtain cfg
    where r: "run q A B C sch (init g0 s0) = Inr cfg" and i: "inv q A B C cfg"
    by blast
  from run_left [OF r] assms
  have "left_rt (fst (A q)) (pc_rt cfg) = 0" "left_gr (fst (B q)) (pc_gr cfg) = 0"
      "left_sp (fst (C q)) (pc_sp cfg) = 0"
    by (simp_all add: init_def left_rt_def left_gr_def left_sp_def)
  then have "pc_rt cfg = RtExit" "pc_gr cfg = GrExit" "pc_sp cfg = SpExit"
    by (auto simp: left_rt_def left_gr_def left_sp_def
        split: rt_pc.splits gr_pc.splits sp_pc.splits)
  with i have "var_wg cfg = 0" by (simp add: inv_def running_def)
  with r show ?thesis by blast
qed

subsection \<open>Concrete runs\<close>

lemma run_ok: "Search ''love'' rt_ok gr_ok sp_ok = Inr ((m_ok, g_ok, s_ok), tr_ok)"
  by (simp add: Search_eq rt_ok_def gr_ok_def sp_ok_def m_ok_def g_ok_def s_ok_def tr_ok_def
      books60_def albums60_def movie60_def work60_def album60_def title60_def report_def)

lemma clients_ok:
  "snd (rt_ok ''love'') = None \<and> snd (gr_ok ''love'') = None \<and> snd (sp_ok ''love'') = None"
  by (simp add: rt_ok_def gr_ok_def sp_ok_def)

subsection \<open>Failing sources\<close>

text \<open>
  C1, as stated: whatever the three clients return, a source that fails has an empty
  slot. It fails: the goroutine prints the error and then goes on with the payload that
  came with it. The movie client below returns one movie and an error; the movie is in
  the slot \<^verbatim>\<open>m\<close> of the bundle.
\<close>

theorem Search_failing_source_counterexample:
  "snd (rt_partial ''up'') = Some ''unexpected EOF''
   \<and> Search ''up'' rt_partial gr_down sp_down =
       Inr (([\<lparr>Movie.Title = ''Up''\<rparr>],
             \<lparr>GoodreadsResponse.Search = \<lparr>Works = []\<rparr>\<rparr>,
             \<lparr>Albums = []\<rparr>),
            (\<lparr>printed = [''ERROR (rt):  unexpected EOF'' @ [CHR 0x0A]], truncated = [''Up'']\<rparr>,
             \<lparr>printed = [''ERROR (gr):  connection refused'' @ [CHR 0x0A]], truncated = []\<rparr>,
             \<lparr>printed = [''ERROR (sp):  connection refused'' @ [CHR 0x0A]], truncated = []\<rparr>))"
  by (simp add: Search_eq rt_partial_def gr_down_def sp_down_def books60_def albums60_def
      movie60_def title60_def report_def Println_def)

text \<open>
  C1, amended: for every query and every outcome of the three clients, \<^verbatim>\<open>Search\<close>
  returns, and what it returns has the three slots \<^verbatim>\<open>m\<close>, \<^verbatim>\<open>g\<close>, \<^verbatim>\<open>s\<close>, one for each
  source; the slot of a failing source whose client returned no items with its error
  holds no items.
\<close>

theorem Search_one_slot_per_source:
  "\<exists>m g s tr.
     Search q A B C = Inr ((m, g, s), tr) \<and>
     (snd (A q) \<noteq> None \<and> fst (A q) = [] \<longrightarrow> m = []) \<and>
     (snd (B q) \<noteq> None \<and> Works (GoodreadsResponse.Search (fst (B q))) = []
        \<longrightarrow> Works (GoodreadsResponse.Search g) = []) \<and>
     (snd (C q) \<noteq> None \<and> Albums (fst (C q)) = [] \<longrightarrow> Albums s = [])"
  by (simp add: Search_eq books60_def albums60_def)

theorem Search_one_slot_per_source_witness:
  "snd (rt_down ''up'') \<noteq> None \<and> fst (rt_down ''up'') = []
   \<and> snd (gr_down ''up'') \<noteq> None
   \<and> Works (GoodreadsResponse.Search (fst (gr_down ''up''))) = []
   \<and> snd (sp_down ''up'') \<noteq> None \<and> Albums (fst (sp_down ''up'')) = []
   \<and> (\<exists>tr. Search ''up'' rt_down gr_down sp_down =
         Inr (([], \<lparr>GoodreadsResponse.Search = \<lparr>Works = []\<rparr>\<rparr>, \<lparr>Albums = []\<rparr>), tr))"
  using Search_one_slot_per_source [of "''up''" rt_down gr_down sp_down]
  by (auto simp add: rt_down_def gr_down_def sp_down_def)

text \<open>
  C2, as stated: the slot of every source whose client returns an error is empty. It
  fails for the same reason as C1, here at the book source: the client returns a
  response with one work and an error, and the work is in the slot \<^verbatim>\<open>g\<close>.
\<close>

theorem Search_failing_books_counterexample:
  "snd (gr_partial ''dune'') = Some ''unexpected EOF''
   \<and> Search ''dune'' rt_down gr_partial sp_down =
       Inr (([],
             \<lparr>GoodreadsResponse.Search =
                \<lparr>Works = [\<lparr>BestBook = \<lparr>BestBook.Title = ''Dune''\<rparr>\<rparr>]\<rparr>\<rparr>,
             \<lparr>Albums = []\<rparr>),
            (\<lparr>printed = [''ERROR (rt):  connection refused'' @ [CHR 0x0A]], truncated = []\<rparr>,
             \<lparr>printed = [''ERROR (gr):  unexpected EOF'' @ [CHR 0x0A]], truncated = [''Dune'']\<rparr>,
             \<lparr>printed = [''ERROR (sp):  connection refused'' @ [CHR 0x0A]], truncated = []\<rparr>))"
  by (simp add: Search_eq rt_down_def gr_partial_def sp_down_def books60_def albums60_def
      work60_def title60_def report_def Println_def)

text \<open>
  C2, amended: the slot of a source whose client returns an error and no items holds no
  items, and the outcome of one source does not reach the slots of the other two:
  with any other client in the place of one source, failing or not, \<^verbatim>\<open>Search\<close> still
  returns, with the same values in the other two slots.
\<close>

theorem Search_failure_is_local:
  "Search q A B C = Inr ((m, g, s), tr) \<Longrightarrow>
     (snd (A q) \<noteq> None \<and> fst (A q) = [] \<longrightarrow> m = []) \<and>
     (snd (B q) \<noteq> None \<and> Works (GoodreadsResponse.Search (fst (B q))) = []
        \<longrightarrow> Works (GoodreadsResponse.Search g) = []) \<and>
     (snd (C q) \<noteq> None \<and> Albums (fst (C q)) = [] \<longrightarrow> Albums s = []) \<and>
     (\<forall>A'. \<exists>m' tr'. Search q A' B C = Inr ((m', g, s), tr')) \<and>
     (\<forall>B'. \<exists>g' tr'. Search q A B' C = Inr ((m, g', s), tr')) \<and>
     (\<forall>C'. \<exists>s' tr'. Search q A B C' = Inr ((m, g, s'), tr'))"
  by (auto simp add: Search_eq books60_def albums60_def)

theorem Search_failure_is_local_witness:
  "Search ''dune'' rt_down gr_down sp_down =
     Inr (([], \<lparr>GoodreadsResponse.Search = \<lparr>Works = []\<rparr>\<rparr>, \<lparr>Albums = []\<rparr>),
          (\<lparr>printed = [Println ''ERROR (rt): '' ''connection refused''], truncated = []\<rparr>,
           \<lparr>printed = [Println ''ERROR (gr): '' ''connection refused''], truncated = []\<rparr>,
           \<lparr>printed = [Println ''ERROR (sp): '' ''connection refused''], truncated = []\<rparr>))
   \<and> snd (rt_down ''dune'') \<noteq> None \<and> fst (rt_down ''dune'') = []
   \<and> snd (gr_down ''dune'') \<noteq> None
   \<and> Works (GoodreadsResponse.Search (fst (gr_down ''dune''))) = []
   \<and> snd (sp_down ''dune'') \<noteq> None \<and> Albums (fst (sp_down ''dune'')) = []
   \<and> (\<exists>m' tr'. Search ''dune'' rt_partial gr_down sp_down =
         Inr ((m', \<lparr>GoodreadsResponse.Search = \<lparr>Works = []\<rparr>\<rparr>, \<lparr>Albums = []\<rparr>), tr'))
   \<and> (\<exists>g' tr'. Search ''dune'' rt_down gr_partial sp_down =
         Inr (([], g', \<lparr>Albums = []\<rparr>), tr'))
   \<and> (\<exists>s' tr'. Search ''dune'' rt_down gr_down sp_partial =
         Inr (([], \<lparr>GoodreadsResponse.Search = \<lparr>Works = []\<rparr>\<rparr>, s'), tr'))"
proof -
  have run: "Search ''dune'' rt_down gr_down sp_down =
     Inr (([], \<lparr>GoodreadsResponse.Search = \<lparr>Works = []\<rparr>\<rparr>, \<lparr>Albums = []\<rparr>),
          (\<lparr>printed = [Println ''ERROR (rt): '' ''connection refused''], truncated = []\<rparr>,
           \<lparr>printed = [Println ''ERROR (gr): '' ''connection refused''], truncated = []\<rparr>,
           \<lparr>printed = [Println ''ERROR (sp): '' ''connection refused''], truncated = []\<rparr>))"
    by (simp add: Search_eq rt_down_def gr_down_def sp_down_def books60_def albums60_def
        report_def)
  have hyps: "snd (rt_down ''dune'') \<noteq> None \<and> fst (rt_down ''dune'') = []
     \<and> snd (gr_down ''dune'') \<noteq> None
     \<and> Works (GoodreadsResponse.Search (fst (gr_down ''dune''))) = []
     \<and> snd (sp_down ''dune'') \<noteq> None \<and> Albums (fst (sp_down ''dune'')) = []"
    by (simp add: rt_down_def gr_down_def sp_down_def)
  from Search_failure_is_local [OF run] run hyps show ?thesis
    by blast
qed

text \<open>
  C3: for every query and every outcome of the three clients, all of them failing
  included, the call of \<^verbatim>\<open>Search\<close> returns its three values. No slice or index
  expression panics and the counter of the wait group does not become negative, in the
  function \<open>Search\<close> and in every interleaving of the steps of the goroutines; and once
  the schedule has given every goroutine the steps it needs (four and the number of
  movies; five and the number of works; five and the number of albums), the counter is
  zero, \<^verbatim>\<open>Wait\<close> returns, and \<^verbatim>\<open>m\<close>, \<^verbatim>\<open>g\<close>, \<^verbatim>\<open>s\<close> hold the values of the function.
\<close>

theorem Search_returns:
  "(\<exists>m g s tr. Search q A B C = Inr ((m, g, s), tr)) \<and>
   (\<exists>cfg. run q A B C sch (init g0 s0) = Inr cfg \<and>
      (length (fst (A q)) + 4 \<le> count_list sch T_rt \<and>
       length (Works (GoodreadsResponse.Search (fst (B q)))) + 5 \<le> count_list sch T_gr \<and>
       length (Albums (fst (C q))) + 5 \<le> count_list sch T_sp \<longrightarrow>
         wg_Wait (var_wg cfg) = Inr () \<and>
         (\<exists>tr. Search q A B C = Inr ((var_m cfg, var_g cfg, var_s cfg), tr))))"
proof -
  obtain cfg where r: "run q A B C sch (init g0 s0) = Inr cfg"
    and a: "var_wg cfg = 0 \<longrightarrow>
        (\<exists>tr. Search q A B C = Inr ((var_m cfg, var_g cfg, var_s cfg), tr))"
    using interleaved_agrees [of q A B C sch g0 s0] by blast
  have "var_wg cfg = 0"
    if "length (fst (A q)) + 4 \<le> count_list sch T_rt"
      "length (Works (GoodreadsResponse.Search (fst (B q)))) + 5 \<le> count_list sch T_gr"
      "length (Albums (fst (C q))) + 5 \<le> count_list sch T_sp"
    using that r
      interleaved_joins [where q = q and A = A and B = B and C = C and sch = sch
        and ?g0.0 = g0 and ?s0.0 = s0]
    by auto
  with r a show ?thesis
    by (auto simp: Search_eq wg_Wait_def)
qed

theorem Search_returns_witness:
  "length (fst (rt_down ''up'')) + 4 \<le> count_list sch_down T_rt
   \<and> length (Works (GoodreadsResponse.Search (fst (gr_down ''up'')))) + 5
       \<le> count_list sch_down T_gr
   \<and> length (Albums (fst (sp_down ''up''))) + 5 \<le> count_list sch_down T_sp
   \<and> (\<exists>cfg. run ''up'' rt_down gr_down sp_down sch_down
               (init \<lparr>GoodreadsResponse.Search = \<lparr>Works = []\<rparr>\<rparr> \<lparr>Albums = []\<rparr>) = Inr cfg
         \<and> var_wg cfg = 0 \<and> wg_Wait (var_wg cfg) = Inr ()
         \<and> var_m cfg = []
         \<and> var_g cfg = \<lparr>GoodreadsResponse.Search = \<lparr>Works = []\<rparr>\<rparr>
         \<and> var_s cfg = \<lparr>Albums = []\<rparr>)
   \<and> (\<exists>tr. Search ''up'' rt_down gr_down sp_down =
         Inr (([], \<lparr>GoodreadsResponse.Search = \<lparr>Works = []\<rparr>\<rparr>, \<lparr>Albums = []\<rparr>), tr))"
  using Search_returns [of "''up''" rt_down gr_down sp_down sch_down
      "\<lparr>GoodreadsResponse.Search = \<lparr>Works = []\<rparr>\<rparr>" "\<lparr>Albums = []\<rparr>"]
  by (simp add: sch_down_def rt_down_def gr_down_def sp_down_def init_def step_def
      step_rt_def step_gr_def step_sp_def wg_Done_def wg_Add_def wg_Wait_def report_def
      Search_eq books60_def albums60_def)

subsection \<open>Sources that answer\<close>

text \<open>
  C7: for a source whose client returns no error, the slot is the sequence of items
  that the client returned, in the client's order, each with its title truncated: the
  slot has the length of the payload, and the item at each position of the slot is the
  item that the client returned at that position, with the result of
  \<^verbatim>\<open>truncate(title, "...", 60)\<close> on that item's own title as its title. Nothing is
  sorted, and no item of another source is among them.
\<close>

theorem Search_keeps_order:
  "Search q A B C = Inr ((m, g, s), tr) \<Longrightarrow>
     (snd (A q) = None \<longrightarrow>
        m = map movie60 (fst (A q)) \<and>
        length m = length (fst (A q)) \<and>
        (\<forall>i<length m.
           truncate (Movie.Title (fst (A q) ! i)) ''...'' 60 = Inr (Movie.Title (m ! i)) \<and>
           m ! i = (fst (A q) ! i)\<lparr>Movie.Title := Movie.Title (m ! i)\<rparr>)) \<and>
     (snd (B q) = None \<longrightarrow>
        g = books60 (fst (B q)) \<and>
        Works (GoodreadsResponse.Search g) =
          map work60 (Works (GoodreadsResponse.Search (fst (B q)))) \<and>
        length (Works (GoodreadsResponse.Search g)) =
          length (Works (GoodreadsResponse.Search (fst (B q)))) \<and>
        (\<forall>i<length (Works (GoodreadsResponse.Search g)).
           truncate (BestBook.Title (BestBook (Works (GoodreadsResponse.Search (fst (B q))) ! i)))
               ''...'' 60 =
             Inr (BestBook.Title (BestBook (Works (GoodreadsResponse.Search g) ! i))) \<and>
           Works (GoodreadsResponse.Search g) ! i =
             (Works (GoodreadsResponse.Search (fst (B q))) ! i)
               \<lparr>BestBook := (BestBook (Works (GoodreadsResponse.Search (fst (B q))) ! i))
                  \<lparr>BestBook.Title :=
                     BestBook.Title (BestBook (Works (GoodreadsResponse.Search g) ! i))\<rparr>\<rparr>)) \<and>
     (snd (C q) = None \<longrightarrow>
        s = albums60 (fst (C q)) \<and>
        Albums s = map album60 (Albums (fst (C q))) \<and>
        length (Albums s) = length (Albums (fst (C q))) \<and>
        (\<forall>i<length (Albums s).
           truncate (Name (Albums (fst (C q)) ! i)) ''...'' 60 = Inr (Name (Albums s ! i)) \<and>
           Albums s ! i = (Albums (fst (C q)) ! i)\<lparr>Name := Name (Albums s ! i)\<rparr>))"
  by (auto simp add: Search_eq books60_def albums60_def movie60_def work60_def album60_def
      truncate_60)

theorem Search_keeps_order_witness:
  "Search ''love'' rt_ok gr_ok sp_ok = Inr ((m_ok, g_ok, s_ok), tr_ok)
   \<and> snd (rt_ok ''love'') = None \<and> snd (gr_ok ''love'') = None \<and> snd (sp_ok ''love'') = None
   \<and> m_ok = map movie60 (fst (rt_ok ''love''))
   \<and> map Movie.Title m_ok =
       [''Dr. Strangelove or: How I Learned to Stop Worrying and Love ...'', ''Brazil'']
   \<and> map Movie.more m_ok = [''/m/dr_strangelove'', ''/m/brazil'']
   \<and> map Movie.more (fst (rt_ok ''love'')) = [''/m/dr_strangelove'', ''/m/brazil'']
   \<and> length m_ok = length (fst (rt_ok ''love''))
   \<and> truncate (Movie.Title (fst (rt_ok ''love'') ! 1)) ''...'' 60 = Inr (Movie.Title (m_ok ! 1))
   \<and> m_ok ! 0 = (fst (rt_ok ''love'') ! 0)\<lparr>Movie.Title := Movie.Title (m_ok ! 0)\<rparr>
   \<and> m_ok ! 1 = (fst (rt_ok ''love'') ! 1)\<lparr>Movie.Title := Movie.Title (m_ok ! 1)\<rparr>
   \<and> g_ok = books60 (fst (gr_ok ''love''))
   \<and> map (\<lambda>w. BestBook.Title (BestBook w)) (Works (GoodreadsResponse.Search g_ok)) =
       [''Dune'', ''Solaris'']
   \<and> s_ok = albums60 (fst (sp_ok ''love''))
   \<and> length (Albums s_ok) = length (Albums (fst (sp_ok ''love'')))"
proof -
  note order = Search_keeps_order [OF run_ok]
  have slots: "m_ok = map movie60 (fst (rt_ok ''love''))"
      "g_ok = books60 (fst (gr_ok ''love''))" "s_ok = albums60 (fst (sp_ok ''love''))"
      "length m_ok = length (fst (rt_ok ''love''))"
      "length (Albums s_ok) = length (Albums (fst (sp_ok ''love'')))"
    using order clients_ok by simp_all
  have movies: "map Movie.Title m_ok =
        [''Dr. Strangelove or: How I Learned to Stop Worrying and Love ...'', ''Brazil'']"
      "map Movie.more m_ok = [''/m/dr_strangelove'', ''/m/brazil'']"
      "map Movie.more (fst (rt_ok ''love'')) = [''/m/dr_strangelove'', ''/m/brazil'']"
      "m_ok ! 0 = (fst (rt_ok ''love'') ! 0)\<lparr>Movie.Title := Movie.Title (m_ok ! 0)\<rparr>"
      "m_ok ! 1 = (fst (rt_ok ''love'') ! 1)\<lparr>Movie.Title := Movie.Title (m_ok ! 1)\<rparr>"
    by (simp_all add: m_ok_def rt_ok_def)
  have title: "truncate (Movie.Title (fst (rt_ok ''love'') ! 1)) ''...'' 60 =
      Inr (Movie.Title (m_ok ! 1))"
    by (simp add: m_ok_def rt_ok_def truncate_def)
  have books: "map (\<lambda>w. BestBook.Title (BestBook w)) (Works (GoodreadsResponse.Search g_ok)) =
      [''Dune'', ''Solaris'']"
    by (simp add: g_ok_def)
  from run_ok clients_ok slots movies title books show ?thesis
    by blast
qed

text \<open>
  C8: for a source whose client returns no error, every field of every item other than
  its title (the \<^verbatim>\<open>Title\<close> of a movie, the \<^verbatim>\<open>BestBook.Title\<close> of a work, the
  \<^verbatim>\<open>Name\<close> of an album) is in the bundle as the client returned it: the other fields
  of a movie, of a work, of its best book and of an album, and the other fields of the
  two responses.
\<close>

theorem Search_frame:
  "Search q A B C = Inr ((m, g, s), tr) \<Longrightarrow>
     (snd (A q) = None \<longrightarrow>
        (\<forall>i<length (fst (A q)). Movie.more (m ! i) = Movie.more (fst (A q) ! i))) \<and>
     (snd (B q) = None \<longrightarrow>
        (\<forall>i<length (Works (GoodreadsResponse.Search (fst (B q)))).
           Work.more (Works (GoodreadsResponse.Search g) ! i) =
             Work.more (Works (GoodreadsResponse.Search (fst (B q))) ! i) \<and>
           BestBook.more (BestBook (Works (GoodreadsResponse.Search g) ! i)) =
             BestBook.more (BestBook (Works (GoodreadsResponse.Search (fst (B q))) ! i))) \<and>
        SearchResults.more (GoodreadsResponse.Search g) =
          SearchResults.more (GoodreadsResponse.Search (fst (B q))) \<and>
        GoodreadsResponse.more g = GoodreadsResponse.more (fst (B q))) \<and>
     (snd (C q) = None \<longrightarrow>
        (\<forall>i<length (Albums (fst (C q))).
           Album.more (Albums s ! i) = Album.more (Albums (fst (C q)) ! i)) \<and>
        SearchAlbumsResponse.more s = SearchAlbumsResponse.more (fst (C q)))"
  by (auto simp add: Search_eq books60_def albums60_def movie60_def work60_def album60_def)

theorem Search_frame_witness:
  "Search ''love'' rt_ok gr_ok sp_ok = Inr ((m_ok, g_ok, s_ok), tr_ok)
   \<and> snd (rt_ok ''love'') = None \<and> snd (gr_ok ''love'') = None \<and> snd (sp_ok ''love'') = None
   \<and> (0::nat) < length (fst (rt_ok ''love''))
   \<and> Movie.more (m_ok ! 0) = ''/m/dr_strangelove''
   \<and> Movie.more (fst (rt_ok ''love'') ! 0) = ''/m/dr_strangelove''
   \<and> (1::nat) < length (Works (GoodreadsResponse.Search (fst (gr_ok ''love''))))
   \<and> Work.more (Works (GoodreadsResponse.Search g_ok) ! 1) = 1961
   \<and> BestBook.more (BestBook (Works (GoodreadsResponse.Search g_ok) ! 1)) = ''Stanislaw Lem''
   \<and> (0::nat) < length (Albums (fst (sp_ok ''love'')))
   \<and> Album.more (Albums s_ok ! 0) = ''spotify:album:1''"
  using Search_frame [OF run_ok] run_ok clients_ok
  by (simp add: m_ok_def g_ok_def s_ok_def rt_ok_def gr_ok_def sp_ok_def)



end
